theory Spec2Isabelle
  imports Main "HOL-Library.AList" "HOL-Library.Sublist" "HOL-Library.Word"
begin

section \<open>Python values\<close>

text \<open>
  A Python \<open>str\<close> is a sequence of Unicode code points, so it is modelled as a list of
  natural numbers; \<open>lit\<close> embeds the ASCII literals of the source.
\<close>

type_synonym pystr = "nat list"

definition lit :: "string \<Rightarrow> pystr" where
  "lit s = map of_char s"

text \<open>
  The values that reach the program: what JSON decoding produces (\<open>None\<close>, booleans,
  integers, floats as their IEEE-754 bit pattern, strings, lists and dictionaries). A
  dictionary is an association list in insertion order with pairwise distinct keys.
\<close>

datatype pyval =
    PNone
  | PBool bool
  | PInt int
  | PFloat "64 word"
  | PStr pystr
  | PList "pyval list"
  | PDict "(pystr \<times> pyval) list"

type_synonym pydict = "(pystr \<times> pyval) list"

text \<open>
  Instances of \<open>Exception\<close>. \<open>ExternalError\<close> stands for any other exception an external
  service (LLM client, JSON parser, translation service) raises.
\<close>

datatype exn =
    HTTPException nat pystr
  | KeyError pystr
  | TypeError
  | ValueError
  | GraphRecursionError
  | OutputParserException
  | ExternalError nat

text \<open>Truth value testing (\<open>not x\<close> is its negation).\<close>

fun py_truthy :: "pyval \<Rightarrow> bool" where
  "py_truthy PNone = False"
| "py_truthy (PBool b) = b"
| "py_truthy (PInt i) = (i \<noteq> 0)"
| "py_truthy (PFloat w) = (take_bit 63 w \<noteq> 0)"
| "py_truthy (PStr s) = (s \<noteq> [])"
| "py_truthy (PList xs) = (xs \<noteq> [])"
| "py_truthy (PDict d) = (d \<noteq> [])"

text \<open>The code points \<open>str.strip()\<close> and \<open>str.isspace()\<close> treat as whitespace.\<close>

definition py_isspace :: "nat \<Rightarrow> bool" where
  "py_isspace c =
     ((9 \<le> c \<and> c \<le> 13) \<or> (28 \<le> c \<and> c \<le> 32) \<or> c = 133 \<or> c = 160 \<or> c = 5760
      \<or> (8192 \<le> c \<and> c \<le> 8202) \<or> c = 8232 \<or> c = 8233 \<or> c = 8239 \<or> c = 8287
      \<or> c = 12288)"

definition py_strip :: "pystr \<Rightarrow> pystr" where
  "py_strip s = rev (dropWhile py_isspace (rev (dropWhile py_isspace s)))"

text \<open>\<open>d[k]\<close> on a dictionary, and \<open>v[k]\<close> with a string key on any value.\<close>

definition dict_getitem :: "pydict \<Rightarrow> pystr \<Rightarrow> exn + pyval" where
  "dict_getitem d k = (case map_of d k of None \<Rightarrow> Inl (KeyError k) | Some v \<Rightarrow> Inr v)"

fun py_getitem :: "pyval \<Rightarrow> pystr \<Rightarrow> exn + pyval" where
  "py_getitem (PDict d) k = dict_getitem d k"
| "py_getitem _ k = Inl TypeError"

text \<open>\<open>d.update(u)\<close>: a present key keeps its position, a new key is appended.\<close>

definition dict_update :: "pydict \<Rightarrow> pydict \<Rightarrow> pydict" where
  "dict_update d u = foldl (\<lambda>acc (k, v). AList.update k v acc) d u"

definition keys :: "pydict \<Rightarrow> pystr set" where
  "keys d = fst ` set d"

section \<open>utils.py\<close>

definition validate_string :: "pyval \<Rightarrow> exn + unit" where
  "validate_string input_str =
     (if \<not> py_truthy input_str then
        Inl (HTTPException 400 (lit ''Input must be a string''))
      else
        (case input_str of
           PStr s \<Rightarrow>
             if \<not> py_truthy (PStr (py_strip s)) then
               Inl (HTTPException 400 (lit ''Input cannot be empty or just whitespace''))
             else Inr ()
         | _ \<Rightarrow> Inl (HTTPException 400 (lit ''Input must be a string''))))"

section \<open>Effects\<close>

text \<open>The four prompt templates of generation.py, named by the stage that renders them.\<close>

datatype template = TitlePrompt | SummaryPrompt | BodyPrompt | TagsPrompt

text \<open>
  What a request does that can be observed from outside: console output, log records,
  a call to the LLM with a template and its input variables, a call to the translation
  service with source locale, target locale and text, the invocation of the compiled
  workflow with its input, and the workflow engine starting a node on a state.
\<close>

datatype event =
    Print pystr
  | LogInfo pystr
  | LogError exn
  | LLMInvoke template pydict
  | Translate pystr pystr pyval
  | GraphInvoke pydict
  | NodeStart pystr pydict

text \<open>
  The external collaborators. The LLM and the translation service answer from a world
  state \<open>'w\<close> they may change, so that two calls with the same arguments may differ;
  each may raise. \<open>json_parse\<close> is \<open>JsonOutputParser\<close> on the text of the LLM's message.
\<close>

record 'w env =
  llm_invoke :: "'w \<Rightarrow> template \<Rightarrow> pydict \<Rightarrow> (exn + pystr) \<times> 'w"
  json_parse :: "pystr \<Rightarrow> exn + pyval"
  google_translate :: "'w \<Rightarrow> pystr \<Rightarrow> pystr \<Rightarrow> pyval \<Rightarrow> (exn + pyval) \<times> 'w"

text \<open>
  A computation runs on the world state and ends in a value or in a raised exception,
  with the new world state and the events it emitted, in order.
\<close>

type_synonym ('w, 'a) comp = "'w \<Rightarrow> (exn + 'a) \<times> 'w \<times> event list"

definition result :: "(exn + 'a) \<times> 'w \<times> event list \<Rightarrow> exn + 'a" where
  "result c = fst c"

definition world :: "(exn + 'a) \<times> 'w \<times> event list \<Rightarrow> 'w" where
  "world c = fst (snd c)"

definition events :: "(exn + 'a) \<times> 'w \<times> event list \<Rightarrow> event list" where
  "events c = snd (snd c)"

definition returnE :: "'a \<Rightarrow> ('w, 'a) comp" where
  "returnE x = (\<lambda>w. (Inr x, w, []))"

definition raiseE :: "exn \<Rightarrow> ('w, 'a) comp" where
  "raiseE e = (\<lambda>w. (Inl e, w, []))"

definition bindE :: "('w, 'a) comp \<Rightarrow> ('a \<Rightarrow> ('w, 'b) comp) \<Rightarrow> ('w, 'b) comp" where
  "bindE m f =
     (\<lambda>w. case m w of
            (Inl e, w', evs) \<Rightarrow> (Inl e, w', evs)
          | (Inr x, w', evs) \<Rightarrow> (case f x w' of (r, w'', evs') \<Rightarrow> (r, w'', evs @ evs')))"

definition thenE :: "('w, 'a) comp \<Rightarrow> ('w, 'b) comp \<Rightarrow> ('w, 'b) comp" where
  "thenE m k = bindE m (\<lambda>_. k)"

definition liftE :: "exn + 'a \<Rightarrow> ('w, 'a) comp" where
  "liftE r = (\<lambda>w. (r, w, []))"

definition emit :: "event \<Rightarrow> ('w, unit) comp" where
  "emit e = (\<lambda>w. (Inr (), w, [e]))"

text \<open>\<open>try: m except Exception as e: h e\<close>\<close>

definition tryE :: "('w, 'a) comp \<Rightarrow> (exn \<Rightarrow> ('w, 'a) comp) \<Rightarrow> ('w, 'a) comp" where
  "tryE m h =
     (\<lambda>w. case m w of
            (Inl e, w', evs) \<Rightarrow> (case h e w' of (r, w'', evs') \<Rightarrow> (r, w'', evs @ evs'))
          | (Inr x, w', evs) \<Rightarrow> (Inr x, w', evs))"

text \<open>\<open>(prompt | llm | JsonOutputParser()).invoke(inputs)\<close>\<close>

definition llm_call :: "'w env \<Rightarrow> template \<Rightarrow> pydict \<Rightarrow> ('w, pystr) comp" where
  "llm_call env tmpl inputs =
     (\<lambda>w. case llm_invoke env w tmpl inputs of
            (r, w') \<Rightarrow> (r, w', [LLMInvoke tmpl inputs]))"

definition chain_invoke :: "'w env \<Rightarrow> template \<Rightarrow> pydict \<Rightarrow> ('w, pyval) comp" where
  "chain_invoke env tmpl inputs =
     bindE (llm_call env tmpl inputs) (\<lambda>text. liftE (json_parse env text))"

text \<open>\<open>GoogleTranslator(source=src, target=tgt).translate(text=text)\<close>\<close>

definition GoogleTranslator :: "'w env \<Rightarrow> pystr \<Rightarrow> pystr \<Rightarrow> pyval \<Rightarrow> ('w, pyval) comp" where
  "GoogleTranslator env src tgt text =
     (\<lambda>w. case google_translate env w src tgt text of
            (r, w') \<Rightarrow> (r, w', [Translate src tgt text]))"

section \<open>generation.py: the stages\<close>

text \<open>The keys of \<open>GraphState\<close>.\<close>

definition GraphState :: "pystr list" where
  "GraphState =
     [lit ''instruction'', lit ''title_en'', lit ''seo_en'', lit ''summary_en'',
      lit ''body_en'', lit ''title_id'', lit ''seo_id'', lit ''summary_id'',
      lit ''body_id'', lit ''tags'']"

definition title_generator :: "'w env \<Rightarrow> pydict \<Rightarrow> ('w, pydict) comp" where
  "title_generator env state =
     thenE (emit (Print (lit ''Receiving instruction......'')))
    (thenE (emit (Print (lit ''Generating title......'')))
    (bindE (liftE (dict_getitem state (lit ''instruction''))) (\<lambda>instruction.
     bindE (chain_invoke env TitlePrompt [(lit ''instruction'', instruction)]) (\<lambda>response.
     thenE (emit (Print (lit ''Generating title complete!'')))
    (thenE (emit (Print (lit ''Generating SEO......'')))
    (bindE (liftE (py_getitem response (lit ''title_en''))) (\<lambda>seo_en.
     thenE (emit (Print (lit ''Generating SEO complete!'')))
    (bindE (liftE (py_getitem response (lit ''title_en''))) (\<lambda>title_en.
     returnE [(lit ''title_en'', title_en), (lit ''seo_en'', seo_en)])))))))))"

definition summary_generator :: "'w env \<Rightarrow> pydict \<Rightarrow> ('w, pydict) comp" where
  "summary_generator env state =
     thenE (emit (Print (lit ''Receiving title......'')))
    (thenE (emit (Print (lit ''Generating summary......'')))
    (bindE (liftE (dict_getitem state (lit ''title_en''))) (\<lambda>title_en.
     bindE (chain_invoke env SummaryPrompt [(lit ''title_en'', title_en)]) (\<lambda>response.
     thenE (emit (Print (lit ''Generating summary complete!'')))
    (bindE (liftE (py_getitem response (lit ''summary_en''))) (\<lambda>summary_en.
     returnE [(lit ''summary_en'', summary_en)]))))))"

definition body_generator :: "'w env \<Rightarrow> pydict \<Rightarrow> ('w, pydict) comp" where
  "body_generator env state =
     thenE (emit (Print (lit ''Receiving title & summary......'')))
    (thenE (emit (Print (lit ''Generating article body......'')))
    (bindE (liftE (dict_getitem state (lit ''title_en''))) (\<lambda>title_en.
     bindE (liftE (dict_getitem state (lit ''summary_en''))) (\<lambda>summary_en.
     bindE (chain_invoke env BodyPrompt
              [(lit ''title_en'', title_en), (lit ''summary_en'', summary_en)]) (\<lambda>response.
     thenE (emit (Print (lit ''Generating article body complete!'')))
    (bindE (liftE (py_getitem response (lit ''body_en''))) (\<lambda>body_en.
     returnE [(lit ''body_en'', body_en)])))))))"

definition translator :: "'w env \<Rightarrow> pydict \<Rightarrow> ('w, pydict) comp" where
  "translator env state =
     bindE (liftE (dict_getitem state (lit ''title_en''))) (\<lambda>title_en.
     bindE (liftE (dict_getitem state (lit ''summary_en''))) (\<lambda>summary_en.
     bindE (liftE (dict_getitem state (lit ''body_en''))) (\<lambda>body_en.
     thenE (emit (Print (lit ''Translating title & SEO to Indonesian......'')))
    (bindE (GoogleTranslator env (lit ''en'') (lit ''id'') title_en) (\<lambda>title_id.
     let seo_id = title_id in
     thenE (emit (Print (lit ''Translating summary to Indonesian......'')))
    (bindE (GoogleTranslator env (lit ''en'') (lit ''id'') summary_en) (\<lambda>summary_id.
     thenE (emit (Print (lit ''Translating article body to Indonesian......'')))
    (bindE (GoogleTranslator env (lit ''en'') (lit ''id'') body_en) (\<lambda>body_id.
     thenE (emit (Print (lit ''Translation complete!'')))
    (returnE [(lit ''title_id'', title_id), (lit ''seo_id'', seo_id),
              (lit ''summary_id'', summary_id), (lit ''body_id'', body_id)]))))))))))"

definition tags_generator :: "'w env \<Rightarrow> pydict \<Rightarrow> ('w, pydict) comp" where
  "tags_generator env state =
     thenE (emit (Print (lit ''Receiving title & summary......'')))
    (thenE (emit (Print (lit ''Generating tags......'')))
    (bindE (liftE (dict_getitem state (lit ''title_id''))) (\<lambda>title_id.
     bindE (liftE (dict_getitem state (lit ''summary_id''))) (\<lambda>summary_id.
     bindE (chain_invoke env TagsPrompt
              [(lit ''title_id'', title_id), (lit ''summary_id'', summary_id)]) (\<lambda>response.
     thenE (emit (Print (lit ''Generating tags complete!'')))
    (bindE (liftE (py_getitem response (lit ''tags''))) (\<lambda>tags.
     returnE [(lit ''tags'', tags)])))))))"

section \<open>The workflow graph\<close>

text \<open>
  The part of the graph library the program uses: named nodes, an entry point and
  unconditional edges. A node maps the current state to an update; the engine starts at
  the entry point, merges each node's update into the state and follows the node's
  edge, until a node has none. A run of more than \<open>recursion_limit\<close> nodes is an error.
\<close>

type_synonym 'w node = "pydict \<Rightarrow> ('w, pydict) comp"

record 'w state_graph =
  schema :: "pystr list"
  nodes :: "(pystr \<times> 'w node) list"
  entry_point :: "pystr option"
  edges :: "(pystr \<times> pystr) list"

definition StateGraph :: "pystr list \<Rightarrow> 'w state_graph" where
  "StateGraph state_schema =
     \<lparr>schema = state_schema, nodes = [], entry_point = None, edges = []\<rparr>"

definition add_node :: "pystr \<Rightarrow> 'w node \<Rightarrow> 'w state_graph \<Rightarrow> 'w state_graph" where
  "add_node name action g = g\<lparr>nodes := nodes g @ [(name, action)]\<rparr>"

definition set_entry_point :: "pystr \<Rightarrow> 'w state_graph \<Rightarrow> 'w state_graph" where
  "set_entry_point name g = g\<lparr>entry_point := Some name\<rparr>"

definition add_edge :: "pystr \<Rightarrow> pystr \<Rightarrow> 'w state_graph \<Rightarrow> 'w state_graph" where
  "add_edge start_key end_key g = g\<lparr>edges := edges g @ [(start_key, end_key)]\<rparr>"

definition compile :: "'w state_graph \<Rightarrow> exn + 'w state_graph" where
  "compile g =
     (case entry_point g of
        None \<Rightarrow> Inl ValueError
      | Some n \<Rightarrow>
          if n \<in> set (map fst (nodes g))
             \<and> list_all (\<lambda>(a, b). a \<in> set (map fst (nodes g)) \<and> b \<in> set (map fst (nodes g)))
                  (edges g)
          then Inr g else Inl ValueError)"

definition recursion_limit :: nat where
  "recursion_limit = 25"

fun run_nodes :: "'w state_graph \<Rightarrow> nat \<Rightarrow> pystr \<Rightarrow> pydict \<Rightarrow> ('w, pydict) comp" where
  "run_nodes g 0 n state = raiseE GraphRecursionError"
| "run_nodes g (Suc limit) n state =
     (case map_of (nodes g) n of
        None \<Rightarrow> raiseE ValueError
      | Some action \<Rightarrow>
          thenE (emit (NodeStart n state))
         (bindE (action state) (\<lambda>update.
            let state' = dict_update state update in
            (case map_of (edges g) n of
               None \<Rightarrow> returnE state'
             | Some n' \<Rightarrow> run_nodes g limit n' state'))))"

definition invoke :: "'w state_graph \<Rightarrow> pydict \<Rightarrow> ('w, pydict) comp" where
  "invoke app input =
     thenE (emit (GraphInvoke input))
    (case entry_point app of
       None \<Rightarrow> raiseE ValueError
     | Some n \<Rightarrow> run_nodes app recursion_limit n input)"

section \<open>generation.py: the generator\<close>

definition set_up_workflow :: "'w env \<Rightarrow> 'w state_graph \<Rightarrow> 'w state_graph" where
  "set_up_workflow env workflow =
     (let workflow = add_node (lit ''title_generator'') (title_generator env) workflow;
          workflow = add_node (lit ''summary_generator'') (summary_generator env) workflow;
          workflow = add_node (lit ''body_generator'') (body_generator env) workflow;
          workflow = add_node (lit ''translator'') (translator env) workflow;
          workflow = add_node (lit ''tags_generator'') (tags_generator env) workflow;
          workflow = set_entry_point (lit ''title_generator'') workflow;
          workflow = add_edge (lit ''title_generator'') (lit ''summary_generator'') workflow;
          workflow = add_edge (lit ''summary_generator'') (lit ''body_generator'') workflow;
          workflow = add_edge (lit ''body_generator'') (lit ''translator'') workflow;
          workflow = add_edge (lit ''translator'') (lit ''tags_generator'') workflow
      in workflow)"

text \<open>\<open>ArticleGenerator(llm)\<close>: the object is its workflow; \<open>self.llm\<close> is in \<open>env\<close>.\<close>

definition ArticleGenerator :: "'w env \<Rightarrow> 'w state_graph" where
  "ArticleGenerator env = set_up_workflow env (StateGraph GraphState)"

definition generate_article :: "'w state_graph \<Rightarrow> pyval \<Rightarrow> ('w, pydict) comp" where
  "generate_article workflow instruction =
     bindE (liftE (compile workflow)) (\<lambda>app.
     bindE (invoke app [(lit ''instruction'', instruction)]) (\<lambda>result.
     returnE result))"

section \<open>api.py\<close>

definition classify_texts :: "'w env \<Rightarrow> pyval \<Rightarrow> ('w, pydict) comp" where
  "classify_texts env input_text =
     thenE (emit (LogInfo (lit ''Request received successfully!'')))
    (thenE (liftE (validate_string input_text))
    (tryE (let generator = ArticleGenerator env in
           bindE (generate_article generator input_text) (\<lambda>article.
           returnE article))
          (\<lambda>e. thenE (emit (LogError e))
                (raiseE (HTTPException 500 (lit ''Internal server error''))))))"

section \<open>The pipeline as a plain sequence of stages\<close>

text \<open>
  The specification's reading of the workflow: an ordered list of stage functions, run
  one after the other, each stage's returned fields merged into the running state
  before the next stage starts.
\<close>

fun run_stages :: "'w node list \<Rightarrow> pydict \<Rightarrow> ('w, pydict) comp" where
  "run_stages [] state = returnE state"
| "run_stages (stage # stages) state =
     bindE (stage state) (\<lambda>update. run_stages stages (dict_update state update))"

definition sequential_pipeline :: "'w env \<Rightarrow> pyval \<Rightarrow> ('w, pydict) comp" where
  "sequential_pipeline env instruction =
     run_stages
       [title_generator env, summary_generator env, body_generator env, translator env,
        tags_generator env]
       [(lit ''instruction'', instruction)]"

section \<open>Observations on a trace\<close>

text \<open>The workflow engine's own events, as opposed to what the stages do.\<close>

fun engine_event :: "event \<Rightarrow> bool" where
  "engine_event (GraphInvoke _) = True"
| "engine_event (NodeStart _ _) = True"
| "engine_event _ = False"

definition hide_engine :: "(exn + 'a) \<times> 'w \<times> event list \<Rightarrow> (exn + 'a) \<times> 'w \<times> event list" where
  "hide_engine c = (result c, world c, filter (\<lambda>e. \<not> engine_event e) (events c))"

text \<open>The inputs the compiled workflow was invoked with, in order.\<close>

fun graph_invokes :: "event list \<Rightarrow> pydict list" where
  "graph_invokes [] = []"
| "graph_invokes (GraphInvoke input # es) = input # graph_invokes es"
| "graph_invokes (_ # es) = graph_invokes es"

text \<open>The nodes the engine started, each with the state it was given, in order.\<close>

fun node_starts :: "event list \<Rightarrow> (pystr \<times> pydict) list" where
  "node_starts [] = []"
| "node_starts (NodeStart n state # es) = (n, state) # node_starts es"
| "node_starts (_ # es) = node_starts es"

text \<open>The calls to the LLM (template and input variables), in order.\<close>

fun llm_calls :: "event list \<Rightarrow> (template \<times> pydict) list" where
  "llm_calls [] = []"
| "llm_calls (LLMInvoke tmpl inputs # es) = (tmpl, inputs) # llm_calls es"
| "llm_calls (_ # es) = llm_calls es"

text \<open>The calls to the translation service (source, target, text), in order.\<close>

fun translate_calls :: "event list \<Rightarrow> (pystr \<times> pystr \<times> pyval) list" where
  "translate_calls [] = []"
| "translate_calls (Translate src tgt text # es) = (src, tgt, text) # translate_calls es"
| "translate_calls (_ # es) = translate_calls es"

text \<open>
  The states the five nodes are started on when the instruction is \<open>x\<close> and the
  stages produce title \<open>t\<close>, summary \<open>s\<close>, body \<open>b\<close> and their
  translations \<open>ti\<close>, \<open>si\<close>, \<open>bi\<close>.
\<close>

definition stage_inputs ::
  "pyval \<Rightarrow> pyval \<Rightarrow> pyval \<Rightarrow> pyval \<Rightarrow> pyval \<Rightarrow> pyval \<Rightarrow> pyval \<Rightarrow> (pystr \<times> pydict) list" where
  "stage_inputs x t s b ti si bi =
     [(lit ''title_generator'',
         [(lit ''instruction'', x)]),
      (lit ''summary_generator'',
         [(lit ''instruction'', x), (lit ''title_en'', t), (lit ''seo_en'', t)]),
      (lit ''body_generator'',
         [(lit ''instruction'', x), (lit ''title_en'', t), (lit ''seo_en'', t),
          (lit ''summary_en'', s)]),
      (lit ''translator'',
         [(lit ''instruction'', x), (lit ''title_en'', t), (lit ''seo_en'', t),
          (lit ''summary_en'', s), (lit ''body_en'', b)]),
      (lit ''tags_generator'',
         [(lit ''instruction'', x), (lit ''title_en'', t), (lit ''seo_en'', t),
          (lit ''summary_en'', s), (lit ''body_en'', b), (lit ''title_id'', ti),
          (lit ''seo_id'', ti), (lit ''summary_id'', si), (lit ''body_id'', bi)])]"

section \<open>Example environments\<close>

text \<open>
  An LLM that answers every prompt with a fixed text per template, a parser that knows
  these four texts, and a translation service that prefixes its input. The world state
  counts the calls.
\<close>

definition demo_env :: "nat env" where
  "demo_env =
     \<lparr>llm_invoke = (\<lambda>n tmpl inputs.
        (Inr (case tmpl of TitlePrompt \<Rightarrow> lit ''T'' | SummaryPrompt \<Rightarrow> lit ''S''
                         | BodyPrompt \<Rightarrow> lit ''B'' | TagsPrompt \<Rightarrow> lit ''G''), Suc n)),
      json_parse = (\<lambda>text.
        if text = lit ''T'' then Inr (PDict [(lit ''title_en'', PStr (lit ''Cats''))])
        else if text = lit ''S'' then Inr (PDict [(lit ''summary_en'', PStr (lit ''About cats''))])
        else if text = lit ''B'' then Inr (PDict [(lit ''body_en'', PStr (lit ''Cats purr''))])
        else if text = lit ''G'' then Inr (PDict [(lit ''tags'', PList [PStr (lit ''kucing'')])])
        else Inl OutputParserException),
      google_translate = (\<lambda>n src tgt text.
        (Inr (case text of PStr s \<Rightarrow> PStr (lit ''id:'' @ s) | v \<Rightarrow> v), Suc n))\<rparr>"

text \<open>The same with a translation service that is down.\<close>

definition offline_env :: "nat env" where
  "offline_env = demo_env\<lparr>google_translate := (\<lambda>n src tgt text. (Inl (ExternalError 503), n))\<rparr>"

text \<open>The same with an LLM whose answers are not JSON.\<close>

definition garbled_env :: "nat env" where
  "garbled_env = demo_env\<lparr>json_parse := (\<lambda>answer. Inl OutputParserException)\<rparr>"

text \<open>The same with an LLM whose tags answer holds a number under the key \<open>tags\<close>.\<close>

definition odd_tags_env :: "nat env" where
  "odd_tags_env =
     demo_env\<lparr>json_parse := (\<lambda>text.
        if text = lit ''G'' then Inr (PDict [(lit ''tags'', PInt 7)])
        else json_parse demo_env text)\<rparr>"


section \<open>Basic facts\<close>

lemmas monad_defs = bindE_def thenE_def returnE_def raiseE_def liftE_def emit_def tryE_def

lemma lit_eq_iff [simp]: "lit a = lit b \<longleftrightarrow> a = b"
  by (simp add: lit_def inj_map_eq_map[OF inj_of_char])

lemma py_strip_empty_iff: "py_strip s = [] \<longleftrightarrow> (\<forall>c\<in>set s. py_isspace c)"
proof
  assume "py_strip s = []"
  then have all: "\<forall>c\<in>set (dropWhile py_isspace s). py_isspace c"
    by (simp add: py_strip_def)
  have "dropWhile py_isspace s = []"
  proof (rule ccontr)
    assume ne: "dropWhile py_isspace s \<noteq> []"
    then have "\<not> py_isspace (hd (dropWhile py_isspace s))"
      by (rule hd_dropWhile)
    moreover have "hd (dropWhile py_isspace s) \<in> set (dropWhile py_isspace s)"
      using ne by simp
    ultimately show False using all by blast
  qed
  then show "\<forall>c\<in>set s. py_isspace c"
    by simp
next
  assume "\<forall>c\<in>set s. py_isspace c"
  then have "dropWhile py_isspace s = []"
    by simp
  then show "py_strip s = []"
    unfolding py_strip_def by (simp only:) simp
qed

lemma py_getitem_Inr:
  "py_getitem r k = Inr v \<longleftrightarrow> (\<exists>d. r = PDict d \<and> map_of d k = Some v)"
  by (cases r) (auto simp: dict_getitem_def split: option.splits)

lemma dict_getitem_Inr: "dict_getitem d k = Inr v \<longleftrightarrow> map_of d k = Some v"
  by (auto simp: dict_getitem_def split: option.splits)

lemma graph_invokes_append [simp]:
  "graph_invokes (xs @ ys) = graph_invokes xs @ graph_invokes ys"
  by (induction xs rule: graph_invokes.induct) simp_all

lemma node_starts_append [simp]: "node_starts (xs @ ys) = node_starts xs @ node_starts ys"
  by (induction xs rule: node_starts.induct) simp_all

lemma llm_calls_append [simp]: "llm_calls (xs @ ys) = llm_calls xs @ llm_calls ys"
  by (induction xs rule: llm_calls.induct) simp_all

lemma translate_calls_append [simp]:
  "translate_calls (xs @ ys) = translate_calls xs @ translate_calls ys"
  by (induction xs rule: translate_calls.induct) simp_all

section \<open>The stages\<close>

lemma title_generator_events:
  assumes "title_generator env st w = (r, w', evs)"
  shows "node_starts evs = [] \<and> graph_invokes evs = [] \<and> translate_calls evs = []
         \<and> filter (\<lambda>e. \<not> engine_event e) evs = evs
         \<and> (map fst (llm_calls evs) = [] \<or> map fst (llm_calls evs) = [TitlePrompt])"
  using assms
  by (auto simp: title_generator_def chain_invoke_def llm_call_def monad_defs
      split: prod.splits sum.splits)

lemma title_generator_Inr:
  assumes "title_generator env st w = (Inr u, w', evs)"
  shows "\<exists>v. u = [(lit ''title_en'', v), (lit ''seo_en'', v)]
             \<and> map fst (llm_calls evs) = [TitlePrompt]"
  using assms
  by (auto simp: title_generator_def chain_invoke_def llm_call_def monad_defs
      split: prod.splits sum.splits)

lemma summary_generator_events:
  assumes "summary_generator env st w = (r, w', evs)"
  shows "node_starts evs = [] \<and> graph_invokes evs = [] \<and> translate_calls evs = []
         \<and> filter (\<lambda>e. \<not> engine_event e) evs = evs
         \<and> (map fst (llm_calls evs) = [] \<or> map fst (llm_calls evs) = [SummaryPrompt])"
  using assms
  by (auto simp: summary_generator_def chain_invoke_def llm_call_def monad_defs
      split: prod.splits sum.splits)

lemma summary_generator_Inr:
  assumes "summary_generator env st w = (Inr u, w', evs)"
  shows "\<exists>v. u = [(lit ''summary_en'', v)] \<and> map fst (llm_calls evs) = [SummaryPrompt]"
  using assms
  by (auto simp: summary_generator_def chain_invoke_def llm_call_def monad_defs
      split: prod.splits sum.splits)

lemma body_generator_events:
  assumes "body_generator env st w = (r, w', evs)"
  shows "node_starts evs = [] \<and> graph_invokes evs = [] \<and> translate_calls evs = []
         \<and> filter (\<lambda>e. \<not> engine_event e) evs = evs
         \<and> (map fst (llm_calls evs) = [] \<or> map fst (llm_calls evs) = [BodyPrompt])"
  using assms
  by (auto simp: body_generator_def chain_invoke_def llm_call_def monad_defs
      split: prod.splits sum.splits)

lemma body_generator_Inr:
  assumes "body_generator env st w = (Inr u, w', evs)"
  shows "\<exists>v. u = [(lit ''body_en'', v)] \<and> map fst (llm_calls evs) = [BodyPrompt]"
  using assms
  by (auto simp: body_generator_def chain_invoke_def llm_call_def monad_defs
      split: prod.splits sum.splits)

lemma tags_generator_events:
  assumes "tags_generator env st w = (r, w', evs)"
  shows "node_starts evs = [] \<and> graph_invokes evs = [] \<and> translate_calls evs = []
         \<and> filter (\<lambda>e. \<not> engine_event e) evs = evs
         \<and> (map fst (llm_calls evs) = [] \<or> map fst (llm_calls evs) = [TagsPrompt])"
  using assms
  by (auto simp: tags_generator_def chain_invoke_def llm_call_def monad_defs
      split: prod.splits sum.splits)

lemma tags_generator_Inr:
  assumes "tags_generator env st w = (Inr u, w', evs)"
  shows "\<exists>ti si text d v.
           map_of st (lit ''title_id'') = Some ti \<and> map_of st (lit ''summary_id'') = Some si
         \<and> llm_invoke env w TagsPrompt [(lit ''title_id'', ti), (lit ''summary_id'', si)]
             = (Inr text, w')
         \<and> json_parse env text = Inr (PDict d) \<and> map_of d (lit ''tags'') = Some v
         \<and> u = [(lit ''tags'', v)] \<and> map fst (llm_calls evs) = [TagsPrompt]"
  using assms
  by (auto simp: tags_generator_def chain_invoke_def llm_call_def monad_defs
        py_getitem_Inr dict_getitem_Inr
      split: prod.splits sum.splits)

lemma translator_events:
  assumes "translator env st w = (r, w', evs)"
  shows "node_starts evs = [] \<and> graph_invokes evs = [] \<and> llm_calls evs = []
         \<and> filter (\<lambda>e. \<not> engine_event e) evs = evs"
  using assms
  by (auto simp: translator_def GoogleTranslator_def monad_defs Let_def
      split: prod.splits sum.splits)

lemma translator_calls:
  assumes "translator env st w = (r, w', evs)"
    and "map_of st (lit ''title_en'') = Some t"
    and "map_of st (lit ''summary_en'') = Some s"
    and "map_of st (lit ''body_en'') = Some b"
  shows "translate_calls evs = []
       \<or> translate_calls evs = [(lit ''en'', lit ''id'', t)]
       \<or> translate_calls evs = [(lit ''en'', lit ''id'', t), (lit ''en'', lit ''id'', s)]
       \<or> translate_calls evs =
           [(lit ''en'', lit ''id'', t), (lit ''en'', lit ''id'', s), (lit ''en'', lit ''id'', b)]"
  using assms
  by (auto simp: translator_def GoogleTranslator_def monad_defs Let_def dict_getitem_def
      split: prod.splits sum.splits)

lemma translator_Inr:
  assumes "translator env st w = (Inr u, w', evs)"
  shows "\<exists>t s b ti si bi.
           map_of st (lit ''title_en'') = Some t \<and> map_of st (lit ''summary_en'') = Some s
         \<and> map_of st (lit ''body_en'') = Some b
         \<and> translate_calls evs =
             [(lit ''en'', lit ''id'', t), (lit ''en'', lit ''id'', s), (lit ''en'', lit ''id'', b)]
         \<and> u = [(lit ''title_id'', ti), (lit ''seo_id'', ti), (lit ''summary_id'', si),
                 (lit ''body_id'', bi)]"
  using assms
  by (auto simp: translator_def GoogleTranslator_def monad_defs Let_def dict_getitem_Inr
      split: prod.splits sum.splits)


section \<open>The workflow\<close>

lemma run_nodes_numeral:
  "run_nodes g (numeral k) n state =
     (case map_of (nodes g) n of
        None \<Rightarrow> raiseE ValueError
      | Some action \<Rightarrow>
          thenE (emit (NodeStart n state))
         (bindE (action state) (\<lambda>update.
            let state' = dict_update state update in
            (case map_of (edges g) n of
               None \<Rightarrow> returnE state'
             | Some n' \<Rightarrow> run_nodes g (pred_numeral k) n' state'))))"
  by (simp add: numeral_eq_Suc)

lemma bindE_liftE_Inr [simp]: "bindE (liftE (Inr x)) f = f x"
  by (rule ext) (simp add: bindE_def liftE_def split: prod.splits)

lemma bindE_returnE_right [simp]: "bindE m (\<lambda>x. returnE x) = m"
  by (rule ext) (simp add: bindE_def returnE_def split: prod.splits sum.splits)

lemmas workflow_defs = ArticleGenerator_def set_up_workflow_def StateGraph_def add_node_def
  add_edge_def set_entry_point_def

lemma compile_ArticleGenerator: "compile (ArticleGenerator env) = Inr (ArticleGenerator env)"
  by (simp add: compile_def workflow_defs)

lemma invoke_unfold:
  "invoke (ArticleGenerator env) s0 =
    thenE (emit (GraphInvoke s0))
   (thenE (emit (NodeStart (lit ''title_generator'') s0))
   (bindE (title_generator env s0) (\<lambda>u1.
    thenE (emit (NodeStart (lit ''summary_generator'') (dict_update s0 u1)))
   (bindE (summary_generator env (dict_update s0 u1)) (\<lambda>u2.
    thenE (emit (NodeStart (lit ''body_generator'') (dict_update (dict_update s0 u1) u2)))
   (bindE (body_generator env (dict_update (dict_update s0 u1) u2)) (\<lambda>u3.
    thenE (emit (NodeStart (lit ''translator'')
                   (dict_update (dict_update (dict_update s0 u1) u2) u3)))
   (bindE (translator env (dict_update (dict_update (dict_update s0 u1) u2) u3)) (\<lambda>u4.
    thenE (emit (NodeStart (lit ''tags_generator'')
                   (dict_update (dict_update (dict_update (dict_update s0 u1) u2) u3) u4)))
   (bindE (tags_generator env
             (dict_update (dict_update (dict_update (dict_update s0 u1) u2) u3) u4)) (\<lambda>u5.
    returnE (dict_update (dict_update (dict_update (dict_update (dict_update s0 u1) u2) u3) u4)
               u5))))))))))))"
  by (simp add: invoke_def recursion_limit_def run_nodes_numeral Let_def workflow_defs)

lemma generate_article_invoke:
  "generate_article (ArticleGenerator env) x =
     invoke (ArticleGenerator env) [(lit ''instruction'', x)]"
  by (simp add: generate_article_def compile_ArticleGenerator)

lemma invoke_cases [consumes 1, case_names title_fails summary_fails body_fails
    translator_fails tags_fails completes]:
  assumes "invoke (ArticleGenerator env) s0 w = (r, w', evs)"
  obtains
    e e1 where "title_generator env s0 w = (Inl e, w', e1)" "r = Inl e"
      "evs = GraphInvoke s0 # NodeStart (lit ''title_generator'') s0 # e1"
  | u1 w1 e1 e e2 where "title_generator env s0 w = (Inr u1, w1, e1)"
      "summary_generator env (dict_update s0 u1) w1 = (Inl e, w', e2)" "r = Inl e"
      "evs = GraphInvoke s0 # NodeStart (lit ''title_generator'') s0 # e1
             @ NodeStart (lit ''summary_generator'') (dict_update s0 u1) # e2"
  | u1 w1 e1 u2 w2 e2 e e3 where "title_generator env s0 w = (Inr u1, w1, e1)"
      "summary_generator env (dict_update s0 u1) w1 = (Inr u2, w2, e2)"
      "body_generator env (dict_update (dict_update s0 u1) u2) w2 = (Inl e, w', e3)" "r = Inl e"
      "evs = GraphInvoke s0 # NodeStart (lit ''title_generator'') s0 # e1
             @ NodeStart (lit ''summary_generator'') (dict_update s0 u1) # e2
             @ NodeStart (lit ''body_generator'') (dict_update (dict_update s0 u1) u2) # e3"
  | u1 w1 e1 u2 w2 e2 u3 w3 e3 e e4 where "title_generator env s0 w = (Inr u1, w1, e1)"
      "summary_generator env (dict_update s0 u1) w1 = (Inr u2, w2, e2)"
      "body_generator env (dict_update (dict_update s0 u1) u2) w2 = (Inr u3, w3, e3)"
      "translator env (dict_update (dict_update (dict_update s0 u1) u2) u3) w3 = (Inl e, w', e4)"
      "r = Inl e"
      "evs = GraphInvoke s0 # NodeStart (lit ''title_generator'') s0 # e1
             @ NodeStart (lit ''summary_generator'') (dict_update s0 u1) # e2
             @ NodeStart (lit ''body_generator'') (dict_update (dict_update s0 u1) u2) # e3
             @ NodeStart (lit ''translator'') (dict_update (dict_update (dict_update s0 u1) u2) u3) # e4"
  | u1 w1 e1 u2 w2 e2 u3 w3 e3 u4 w4 e4 e e5 where "title_generator env s0 w = (Inr u1, w1, e1)"
      "summary_generator env (dict_update s0 u1) w1 = (Inr u2, w2, e2)"
      "body_generator env (dict_update (dict_update s0 u1) u2) w2 = (Inr u3, w3, e3)"
      "translator env (dict_update (dict_update (dict_update s0 u1) u2) u3) w3 = (Inr u4, w4, e4)"
      "tags_generator env (dict_update (dict_update (dict_update (dict_update s0 u1) u2) u3) u4) w4
         = (Inl e, w', e5)"
      "r = Inl e"
      "evs = GraphInvoke s0 # NodeStart (lit ''title_generator'') s0 # e1
             @ NodeStart (lit ''summary_generator'') (dict_update s0 u1) # e2
             @ NodeStart (lit ''body_generator'') (dict_update (dict_update s0 u1) u2) # e3
             @ NodeStart (lit ''translator'') (dict_update (dict_update (dict_update s0 u1) u2) u3) # e4
             @ NodeStart (lit ''tags_generator'')
                 (dict_update (dict_update (dict_update (dict_update s0 u1) u2) u3) u4) # e5"
  | u1 w1 e1 u2 w2 e2 u3 w3 e3 u4 w4 e4 u5 e5 where "title_generator env s0 w = (Inr u1, w1, e1)"
      "summary_generator env (dict_update s0 u1) w1 = (Inr u2, w2, e2)"
      "body_generator env (dict_update (dict_update s0 u1) u2) w2 = (Inr u3, w3, e3)"
      "translator env (dict_update (dict_update (dict_update s0 u1) u2) u3) w3 = (Inr u4, w4, e4)"
      "tags_generator env (dict_update (dict_update (dict_update (dict_update s0 u1) u2) u3) u4) w4
         = (Inr u5, w', e5)"
      "r = Inr (dict_update (dict_update (dict_update (dict_update (dict_update s0 u1) u2) u3) u4) u5)"
      "evs = GraphInvoke s0 # NodeStart (lit ''title_generator'') s0 # e1
             @ NodeStart (lit ''summary_generator'') (dict_update s0 u1) # e2
             @ NodeStart (lit ''body_generator'') (dict_update (dict_update s0 u1) u2) # e3
             @ NodeStart (lit ''translator'') (dict_update (dict_update (dict_update s0 u1) u2) u3) # e4
             @ NodeStart (lit ''tags_generator'')
                 (dict_update (dict_update (dict_update (dict_update s0 u1) u2) u3) u4) # e5"
  using assms unfolding invoke_unfold
  by (auto simp: monad_defs split: prod.splits sum.splits)

section \<open>The shape of every run\<close>

lemma pipeline_run:
  assumes "invoke (ArticleGenerator env) [(lit ''instruction'', x)] w = (r, w', evs)"
  obtains t s b ti si bi g k where
    "k \<le> 4"
    "graph_invokes evs = [[(lit ''instruction'', x)]]"
    "node_starts evs = take (Suc k) (stage_inputs x t s b ti si bi)"
    "prefix (map fst (llm_calls evs)) [TitlePrompt, SummaryPrompt, BodyPrompt, TagsPrompt]"
    "prefix (translate_calls evs)
       [(lit ''en'', lit ''id'', t), (lit ''en'', lit ''id'', s), (lit ''en'', lit ''id'', b)]"
    "k = 4 \<Longrightarrow> translate_calls evs =
       [(lit ''en'', lit ''id'', t), (lit ''en'', lit ''id'', s), (lit ''en'', lit ''id'', b)]"
    "\<And>a. r = Inr a \<Longrightarrow>
       k = 4
       \<and> a = [(lit ''instruction'', x), (lit ''title_en'', t), (lit ''seo_en'', t),
              (lit ''summary_en'', s), (lit ''body_en'', b), (lit ''title_id'', ti),
              (lit ''seo_id'', ti), (lit ''summary_id'', si), (lit ''body_id'', bi),
              (lit ''tags'', g)]
       \<and> (\<exists>w4 text d.
             llm_invoke env w4 TagsPrompt [(lit ''title_id'', ti), (lit ''summary_id'', si)]
               = (Inr text, w')
           \<and> json_parse env text = Inr (PDict d) \<and> map_of d (lit ''tags'') = Some g)"
  using assms
proof (cases rule: invoke_cases)
  case (title_fails e e1)
  from title_generator_events[OF title_fails(1)] title_fails(2,3)
  show ?thesis
    by (intro that[of 0 PNone PNone PNone PNone PNone PNone PNone])
       (auto simp: stage_inputs_def)
next
  case (summary_fails u1 w1 e1 e e2)
  from title_generator_Inr[OF summary_fails(1)] obtain t where
    u1: "u1 = [(lit ''title_en'', t), (lit ''seo_en'', t)]"
    and l1: "map fst (llm_calls e1) = [TitlePrompt]" by (elim exE conjE)
  from title_generator_events[OF summary_fails(1)]
    summary_generator_events[OF summary_fails(2)] summary_fails(3,4) u1 l1
  show ?thesis
    by (intro that[of 1 t PNone PNone PNone PNone PNone PNone])
       (auto simp: stage_inputs_def dict_update_def)
next
  case (body_fails u1 w1 e1 u2 w2 e2 e e3)
  from title_generator_Inr[OF body_fails(1)] obtain t where
    u1: "u1 = [(lit ''title_en'', t), (lit ''seo_en'', t)]"
    and l1: "map fst (llm_calls e1) = [TitlePrompt]" by (elim exE conjE)
  from summary_generator_Inr[OF body_fails(2)] obtain s where
    u2: "u2 = [(lit ''summary_en'', s)]"
    and l2: "map fst (llm_calls e2) = [SummaryPrompt]" by (elim exE conjE)
  from title_generator_events[OF body_fails(1)] summary_generator_events[OF body_fails(2)]
    body_generator_events[OF body_fails(3)] body_fails(4,5) u1 l1 u2 l2
  show ?thesis
    by (intro that[of 2 t s PNone PNone PNone PNone PNone])
       (auto simp: stage_inputs_def dict_update_def)
next
  case (translator_fails u1 w1 e1 u2 w2 e2 u3 w3 e3 e e4)
  from title_generator_Inr[OF translator_fails(1)] obtain t where
    u1: "u1 = [(lit ''title_en'', t), (lit ''seo_en'', t)]"
    and l1: "map fst (llm_calls e1) = [TitlePrompt]" by (elim exE conjE)
  from summary_generator_Inr[OF translator_fails(2)] obtain s where
    u2: "u2 = [(lit ''summary_en'', s)]"
    and l2: "map fst (llm_calls e2) = [SummaryPrompt]" by (elim exE conjE)
  from body_generator_Inr[OF translator_fails(3)] obtain b where
    u3: "u3 = [(lit ''body_en'', b)]"
    and l3: "map fst (llm_calls e3) = [BodyPrompt]" by (elim exE conjE)
  have tc: "translate_calls e4 = []
       \<or> translate_calls e4 = [(lit ''en'', lit ''id'', t)]
       \<or> translate_calls e4 = [(lit ''en'', lit ''id'', t), (lit ''en'', lit ''id'', s)]
       \<or> translate_calls e4 =
           [(lit ''en'', lit ''id'', t), (lit ''en'', lit ''id'', s), (lit ''en'', lit ''id'', b)]"
    by (rule translator_calls[OF translator_fails(4)]) (simp_all add: u1 u2 u3 dict_update_def)
  from title_generator_events[OF translator_fails(1)]
    summary_generator_events[OF translator_fails(2)]
    body_generator_events[OF translator_fails(3)] translator_events[OF translator_fails(4)]
    translator_fails(5,6) u1 l1 u2 l2 u3 l3 tc
  show ?thesis
    by (intro that[of 3 t s b PNone PNone PNone PNone])
       (auto simp: stage_inputs_def dict_update_def)
next
  case (tags_fails u1 w1 e1 u2 w2 e2 u3 w3 e3 u4 w4 e4 e e5)
  from title_generator_Inr[OF tags_fails(1)] obtain t where
    u1: "u1 = [(lit ''title_en'', t), (lit ''seo_en'', t)]"
    and l1: "map fst (llm_calls e1) = [TitlePrompt]" by (elim exE conjE)
  from summary_generator_Inr[OF tags_fails(2)] obtain s where
    u2: "u2 = [(lit ''summary_en'', s)]"
    and l2: "map fst (llm_calls e2) = [SummaryPrompt]" by (elim exE conjE)
  from body_generator_Inr[OF tags_fails(3)] obtain b where
    u3: "u3 = [(lit ''body_en'', b)]"
    and l3: "map fst (llm_calls e3) = [BodyPrompt]" by (elim exE conjE)
  from translator_Inr[OF tags_fails(4)] obtain t' s' b' ti si bi where
    st: "map_of (dict_update (dict_update (dict_update [(lit ''instruction'', x)] u1) u2) u3)
           (lit ''title_en'') = Some t'"
        "map_of (dict_update (dict_update (dict_update [(lit ''instruction'', x)] u1) u2) u3)
           (lit ''summary_en'') = Some s'"
        "map_of (dict_update (dict_update (dict_update [(lit ''instruction'', x)] u1) u2) u3)
           (lit ''body_en'') = Some b'"
    and tc: "translate_calls e4 =
       [(lit ''en'', lit ''id'', t'), (lit ''en'', lit ''id'', s'), (lit ''en'', lit ''id'', b')]"
    and u4: "u4 = [(lit ''title_id'', ti), (lit ''seo_id'', ti), (lit ''summary_id'', si),
                   (lit ''body_id'', bi)]" by (elim exE conjE)
  from st have eq: "t' = t" "s' = s" "b' = b"
    by (simp_all add: u1 u2 u3 dict_update_def)
  from title_generator_events[OF tags_fails(1)] summary_generator_events[OF tags_fails(2)]
    body_generator_events[OF tags_fails(3)] translator_events[OF tags_fails(4)]
    tags_generator_events[OF tags_fails(5)] tags_fails(6,7) u1 l1 u2 l2 u3 l3 tc u4 eq
  show ?thesis
    by (intro that[of 4 t s b ti si bi PNone])
       (auto simp: stage_inputs_def dict_update_def)
next
  case (completes u1 w1 e1 u2 w2 e2 u3 w3 e3 u4 w4 e4 u5 e5)
  from title_generator_Inr[OF completes(1)] obtain t where
    u1: "u1 = [(lit ''title_en'', t), (lit ''seo_en'', t)]"
    and l1: "map fst (llm_calls e1) = [TitlePrompt]" by (elim exE conjE)
  from summary_generator_Inr[OF completes(2)] obtain s where
    u2: "u2 = [(lit ''summary_en'', s)]"
    and l2: "map fst (llm_calls e2) = [SummaryPrompt]" by (elim exE conjE)
  from body_generator_Inr[OF completes(3)] obtain b where
    u3: "u3 = [(lit ''body_en'', b)]"
    and l3: "map fst (llm_calls e3) = [BodyPrompt]" by (elim exE conjE)
  from translator_Inr[OF completes(4)] obtain t' s' b' ti si bi where
    st: "map_of (dict_update (dict_update (dict_update [(lit ''instruction'', x)] u1) u2) u3)
           (lit ''title_en'') = Some t'"
        "map_of (dict_update (dict_update (dict_update [(lit ''instruction'', x)] u1) u2) u3)
           (lit ''summary_en'') = Some s'"
        "map_of (dict_update (dict_update (dict_update [(lit ''instruction'', x)] u1) u2) u3)
           (lit ''body_en'') = Some b'"
    and tc: "translate_calls e4 =
       [(lit ''en'', lit ''id'', t'), (lit ''en'', lit ''id'', s'), (lit ''en'', lit ''id'', b')]"
    and u4: "u4 = [(lit ''title_id'', ti), (lit ''seo_id'', ti), (lit ''summary_id'', si),
                   (lit ''body_id'', bi)]" by (elim exE conjE)
  from st have eq: "t' = t" "s' = s" "b' = b"
    by (simp_all add: u1 u2 u3 dict_update_def)
  from tags_generator_Inr[OF completes(5)] obtain ti' si' answer d g where
    st5: "map_of (dict_update (dict_update (dict_update (dict_update
            [(lit ''instruction'', x)] u1) u2) u3) u4) (lit ''title_id'') = Some ti'"
         "map_of (dict_update (dict_update (dict_update (dict_update
            [(lit ''instruction'', x)] u1) u2) u3) u4) (lit ''summary_id'') = Some si'"
    and llm: "llm_invoke env w4 TagsPrompt [(lit ''title_id'', ti'), (lit ''summary_id'', si')]
             = (Inr answer, w')"
    and js: "json_parse env answer = Inr (PDict d)" "map_of d (lit ''tags'') = Some g"
    and u5: "u5 = [(lit ''tags'', g)]"
    and l5: "map fst (llm_calls e5) = [TagsPrompt]" by (elim exE conjE)
  from st5 have eq5: "ti' = ti" "si' = si"
    by (simp_all add: u1 u2 u3 u4 dict_update_def)
  have tags: "\<exists>w4 text d.
             llm_invoke env w4 TagsPrompt [(lit ''title_id'', ti), (lit ''summary_id'', si)]
               = (Inr text, w')
           \<and> json_parse env text = Inr (PDict d) \<and> map_of d (lit ''tags'') = Some g"
    using llm js eq5 by auto
  from title_generator_events[OF completes(1)] summary_generator_events[OF completes(2)]
    body_generator_events[OF completes(3)] translator_events[OF completes(4)]
    tags_generator_events[OF completes(5)] completes(6,7) u1 l1 u2 l2 u3 l3 tc u4 eq u5 l5 tags
  show ?thesis
    by (intro that[of 4 t s b ti si bi g])
       (simp_all add: stage_inputs_def dict_update_def)
qed

section \<open>The request handler\<close>

lemma validate_string_valid:
  assumes "s \<noteq> []" "\<exists>c\<in>set s. \<not> py_isspace c"
  shows "validate_string (PStr s) = Inr ()"
  using assms by (auto simp: validate_string_def py_strip_empty_iff)

lemma validate_string_invalid:
  assumes "x = PStr [] \<or> (\<exists>s. x = PStr s \<and> (\<forall>c\<in>set s. py_isspace c)) \<or> (\<forall>s. x \<noteq> PStr s)"
  shows "validate_string x = Inl (HTTPException 400 (lit ''Input must be a string''))
       \<or> validate_string x = Inl (HTTPException 400 (lit ''Input cannot be empty or just whitespace''))"
  using assms by (cases x) (auto simp: validate_string_def py_strip_empty_iff)

lemma classify_texts_invalid:
  assumes "validate_string x = Inl e"
  shows "classify_texts env x w = (Inl e, w, [LogInfo (lit ''Request received successfully!'')])"
  using assms by (simp add: classify_texts_def monad_defs)

lemma classify_texts_valid:
  assumes "validate_string x = Inr ()"
  shows "classify_texts env x w =
    (case generate_article (ArticleGenerator env) x w of
       (Inl e, w', evs) \<Rightarrow>
         (Inl (HTTPException 500 (lit ''Internal server error'')), w',
          LogInfo (lit ''Request received successfully!'') # evs @ [LogError e])
     | (Inr a, w', evs) \<Rightarrow>
         (Inr a, w', LogInfo (lit ''Request received successfully!'') # evs))"
  using assms
  by (simp add: classify_texts_def monad_defs Let_def split: prod.splits sum.splits)


lemma classify_texts_Inr:
  assumes "result (classify_texts env x w) = Inr a"
  shows "result (generate_article (ArticleGenerator env) x w) = Inr a"
proof (cases "validate_string x")
  case (Inl e)
  with assms show ?thesis
    by (simp add: classify_texts_invalid result_def)
next
  case (Inr u)
  then have "validate_string x = Inr ()" by simp
  from classify_texts_valid[OF this, of env w] assms show ?thesis
    by (auto simp: result_def split: prod.splits sum.splits)
qed

section \<open>Example runs\<close>

lemma lit_append [simp]: "lit a @ lit b = lit (a @ b)"
  by (simp add: lit_def)

lemmas stage_defs = title_generator_def summary_generator_def body_generator_def
  translator_def tags_generator_def chain_invoke_def llm_call_def GoogleTranslator_def

lemmas eval_defs = generate_article_invoke invoke_unfold stage_defs monad_defs
  dict_update_def dict_getitem_def Let_def

lemma cats_valid: "validate_string (PStr (lit ''cats'')) = Inr ()"
  by (simp add: validate_string_def py_strip_def py_isspace_def lit_def)

lemma cats_hyps: "lit ''cats'' \<noteq> [] \<and> (\<exists>c\<in>set (lit ''cats''). \<not> py_isspace c)"
  by (simp add: py_isspace_def lit_def)

lemma demo_run_result:
  "result (generate_article (ArticleGenerator demo_env) (PStr (lit ''cats'')) 0) =
     Inr [(lit ''instruction'', PStr (lit ''cats'')),
          (lit ''title_en'', PStr (lit ''Cats'')),
          (lit ''seo_en'', PStr (lit ''Cats'')),
          (lit ''summary_en'', PStr (lit ''About cats'')),
          (lit ''body_en'', PStr (lit ''Cats purr'')),
          (lit ''title_id'', PStr (lit ''id:Cats'')),
          (lit ''seo_id'', PStr (lit ''id:Cats'')),
          (lit ''summary_id'', PStr (lit ''id:About cats'')),
          (lit ''body_id'', PStr (lit ''id:Cats purr'')),
          (lit ''tags'', PList [PStr (lit ''kucing'')])]"
  by (simp add: eval_defs demo_env_def result_def)

lemma garbled_run:
  "generate_article (ArticleGenerator garbled_env) (PStr (lit ''cats'')) 0 =
     (Inl OutputParserException, 1,
      [GraphInvoke [(lit ''instruction'', PStr (lit ''cats''))],
       NodeStart (lit ''title_generator'') [(lit ''instruction'', PStr (lit ''cats''))],
       Print (lit ''Receiving instruction......''),
       Print (lit ''Generating title......''),
       LLMInvoke TitlePrompt [(lit ''instruction'', PStr (lit ''cats''))]])"
  by (simp add: eval_defs demo_env_def garbled_env_def)

lemma offline_run_result:
  "result (generate_article (ArticleGenerator offline_env) (PStr (lit ''cats'')) 0)
     = Inl (ExternalError 503)"
  by (simp add: eval_defs demo_env_def offline_env_def result_def)

lemma offline_run_translate_calls:
  "translate_calls (events (generate_article (ArticleGenerator offline_env) (PStr (lit ''cats'')) 0))
     = [(lit ''en'', lit ''id'', PStr (lit ''Cats''))]"
  by (simp add: eval_defs demo_env_def offline_env_def events_def)

lemma offline_run_node_starts:
  "node_starts (events (generate_article (ArticleGenerator offline_env) (PStr (lit ''cats'')) 0))
     = [(lit ''title_generator'', [(lit ''instruction'', PStr (lit ''cats''))]),
        (lit ''summary_generator'',
           [(lit ''instruction'', PStr (lit ''cats'')), (lit ''title_en'', PStr (lit ''Cats'')),
            (lit ''seo_en'', PStr (lit ''Cats''))]),
        (lit ''body_generator'',
           [(lit ''instruction'', PStr (lit ''cats'')), (lit ''title_en'', PStr (lit ''Cats'')),
            (lit ''seo_en'', PStr (lit ''Cats'')), (lit ''summary_en'', PStr (lit ''About cats''))]),
        (lit ''translator'',
           [(lit ''instruction'', PStr (lit ''cats'')), (lit ''title_en'', PStr (lit ''Cats'')),
            (lit ''seo_en'', PStr (lit ''Cats'')), (lit ''summary_en'', PStr (lit ''About cats'')),
            (lit ''body_en'', PStr (lit ''Cats purr''))])]"
  by (simp add: eval_defs demo_env_def offline_env_def events_def)

lemma demo_run_translate_calls:
  "translate_calls (events (generate_article (ArticleGenerator demo_env) (PStr (lit ''cats'')) 0))
     = [(lit ''en'', lit ''id'', PStr (lit ''Cats'')),
        (lit ''en'', lit ''id'', PStr (lit ''About cats'')),
        (lit ''en'', lit ''id'', PStr (lit ''Cats purr''))]"
  by (simp add: eval_defs demo_env_def events_def)

lemma odd_tags_run_result:
  "result (generate_article (ArticleGenerator odd_tags_env) (PStr (lit ''cats'')) 0) =
     Inr [(lit ''instruction'', PStr (lit ''cats'')),
          (lit ''title_en'', PStr (lit ''Cats'')),
          (lit ''seo_en'', PStr (lit ''Cats'')),
          (lit ''summary_en'', PStr (lit ''About cats'')),
          (lit ''body_en'', PStr (lit ''Cats purr'')),
          (lit ''title_id'', PStr (lit ''id:Cats'')),
          (lit ''seo_id'', PStr (lit ''id:Cats'')),
          (lit ''summary_id'', PStr (lit ''id:About cats'')),
          (lit ''body_id'', PStr (lit ''id:Cats purr'')),
          (lit ''tags'', PInt 7)]"
  by (simp add: eval_defs demo_env_def odd_tags_env_def result_def)

section \<open>Validation (claims C2, C9)\<close>

text \<open>
  Claim C9. The empty string fails validation with the message "Input must be a string"
  (the truth-value test fires before the whitespace check), a non-empty string of
  whitespace only fails with "Input cannot be empty or just whitespace"; both are
  client errors with status 400, and the two messages differ.
\<close>

theorem validation_messages_differ:
  assumes "s \<noteq> []" and "\<forall>c\<in>set s. py_isspace c"
  shows "validate_string (PStr []) = Inl (HTTPException 400 (lit ''Input must be a string''))
       \<and> result (classify_texts env (PStr []) w)
           = Inl (HTTPException 400 (lit ''Input must be a string''))
       \<and> validate_string (PStr s)
           = Inl (HTTPException 400 (lit ''Input cannot be empty or just whitespace''))
       \<and> result (classify_texts env (PStr s) w)
           = Inl (HTTPException 400 (lit ''Input cannot be empty or just whitespace''))
       \<and> lit ''Input must be a string'' \<noteq> lit ''Input cannot be empty or just whitespace''"
proof -
  have e: "validate_string (PStr []) = Inl (HTTPException 400 (lit ''Input must be a string''))"
    by (simp add: validate_string_def)
  have ws: "validate_string (PStr s)
           = Inl (HTTPException 400 (lit ''Input cannot be empty or just whitespace''))"
    using assms by (simp add: validate_string_def py_strip_empty_iff)
  show ?thesis
    by (simp add: e ws classify_texts_invalid[OF e] classify_texts_invalid[OF ws] result_def)
qed

theorem validation_messages_differ_witness:
  "validate_string (PStr (lit ''   ''))
     = Inl (HTTPException 400 (lit ''Input cannot be empty or just whitespace''))
   \<and> result (classify_texts demo_env (PStr (lit ''   '')) 0)
     = Inl (HTTPException 400 (lit ''Input cannot be empty or just whitespace''))
   \<and> result (classify_texts demo_env (PStr []) 0)
     = Inl (HTTPException 400 (lit ''Input must be a string''))"
  using validation_messages_differ[of "lit ''   ''" demo_env 0]
  by (simp add: lit_def py_isspace_def)

text \<open>
  Claim C2. For an input that is the empty string, a whitespace-only string or not a
  string, the request handler fails with a client error (status 400, not the generic
  500) before the pipeline is invoked: the only event is the log record of the request,
  so the workflow is not invoked and no LLM or translation call is made, and the world
  is unchanged.
\<close>

theorem invalid_input_rejected:
  assumes "x = PStr [] \<or> (\<exists>s. x = PStr s \<and> (\<forall>c\<in>set s. py_isspace c)) \<or> (\<forall>s. x \<noteq> PStr s)"
  shows "\<exists>msg. result (classify_texts env x w) = Inl (HTTPException 400 msg)
           \<and> result (classify_texts env x w)
               \<noteq> Inl (HTTPException 500 (lit ''Internal server error''))
           \<and> events (classify_texts env x w)
               = [LogInfo (lit ''Request received successfully!'')]
           \<and> graph_invokes (events (classify_texts env x w)) = []
           \<and> llm_calls (events (classify_texts env x w)) = []
           \<and> translate_calls (events (classify_texts env x w)) = []
           \<and> world (classify_texts env x w) = w"
  using validate_string_invalid[OF assms]
  by (auto simp: classify_texts_invalid result_def events_def world_def)

theorem invalid_input_rejected_witness:
  "(\<exists>msg. result (classify_texts demo_env (PStr []) 0) = Inl (HTTPException 400 msg))
   \<and> (\<exists>msg. result (classify_texts demo_env (PStr (lit ''   '')) 0) = Inl (HTTPException 400 msg))
   \<and> (\<exists>msg. result (classify_texts demo_env (PInt 7) 0) = Inl (HTTPException 400 msg))
   \<and> events (classify_texts demo_env (PStr (lit ''   '')) 0)
        = [LogInfo (lit ''Request received successfully!'')]
   \<and> events (classify_texts demo_env (PInt 7) 0)
        = [LogInfo (lit ''Request received successfully!'')]"
  using invalid_input_rejected[of "PStr []" demo_env 0]
    invalid_input_rejected[of "PStr (lit ''   '')" demo_env 0]
    invalid_input_rejected[of "PInt 7" demo_env 0]
  by (simp add: lit_def py_isspace_def)

section \<open>The handler around the pipeline (claims C1, C3, C4)\<close>

text \<open>
  Claim C1. For every non-empty instruction string that is not only whitespace, the
  request handler invokes the compiled workflow exactly once, on the state holding only
  the instruction, and when the pipeline succeeds it returns the pipeline's record,
  whose fields are exactly the ten fields of \<open>GraphState\<close>, the instruction unchanged.
\<close>

theorem valid_instruction_runs_pipeline_once:
  assumes "s \<noteq> []" and "\<exists>c\<in>set s. \<not> py_isspace c"
  shows "graph_invokes (events (classify_texts env (PStr s) w))
           = [[(lit ''instruction'', PStr s)]]
       \<and> (\<forall>article.
            result (generate_article (ArticleGenerator env) (PStr s) w) = Inr article \<longrightarrow>
              result (classify_texts env (PStr s) w) = Inr article
            \<and> map fst article = GraphState
            \<and> map_of article (lit ''instruction'') = Some (PStr s))"
proof -
  obtain r w' evs where run: "generate_article (ArticleGenerator env) (PStr s) w = (r, w', evs)"
    by (cases "generate_article (ArticleGenerator env) (PStr s) w") auto
  from run have inv: "invoke (ArticleGenerator env) [(lit ''instruction'', PStr s)] w = (r, w', evs)"
    by (simp add: generate_article_invoke)
  have valid: "validate_string (PStr s) = Inr ()"
    using assms by (rule validate_string_valid)
  from inv show ?thesis
  proof (cases rule: pipeline_run)
    case (1 t s' b ti si bi g k)
    from 1(2) 1(7) show ?thesis
      by (cases r)
         (auto simp: classify_texts_valid[OF valid] run events_def result_def GraphState_def)
  qed
qed

theorem valid_instruction_runs_pipeline_once_witness:
  "graph_invokes (events (classify_texts demo_env (PStr (lit ''cats'')) 0))
     = [[(lit ''instruction'', PStr (lit ''cats''))]]
   \<and> map fst (projr (result (classify_texts demo_env (PStr (lit ''cats'')) 0))) = GraphState"
  using valid_instruction_runs_pipeline_once[of "lit ''cats''" demo_env 0] cats_hyps
    demo_run_result
  by simp

text \<open>
  Claim C3. After validation has succeeded, whatever exception the pipeline raises, the
  handler logs it and answers with the generic error of status 500 and the fixed detail
  "Internal server error", which carries nothing of the exception. The handler returns a
  record only when the pipeline returned one, and then it has all ten fields, so no
  partial record is returned. Nothing is retried: the workflow is invoked once, the LLM
  is called at most once per prompt template, in stage order, and the translation
  service at most three times.
\<close>

theorem pipeline_failure_is_generic_error:
  assumes "s \<noteq> []" and "\<exists>c\<in>set s. \<not> py_isspace c"
  shows "(case generate_article (ArticleGenerator env) (PStr s) w of
            (Inl e, w', evs) \<Rightarrow>
              classify_texts env (PStr s) w =
                (Inl (HTTPException 500 (lit ''Internal server error'')), w',
                 LogInfo (lit ''Request received successfully!'') # evs @ [LogError e])
          | (Inr article, w', evs) \<Rightarrow>
              classify_texts env (PStr s) w =
                (Inr article, w', LogInfo (lit ''Request received successfully!'') # evs)
              \<and> map fst article = GraphState)
       \<and> graph_invokes (events (classify_texts env (PStr s) w))
           = [[(lit ''instruction'', PStr s)]]
       \<and> prefix (map fst (llm_calls (events (classify_texts env (PStr s) w))))
           [TitlePrompt, SummaryPrompt, BodyPrompt, TagsPrompt]
       \<and> length (translate_calls (events (classify_texts env (PStr s) w))) \<le> 3"
proof -
  obtain r w' evs where run: "generate_article (ArticleGenerator env) (PStr s) w = (r, w', evs)"
    by (cases "generate_article (ArticleGenerator env) (PStr s) w") auto
  from run have inv: "invoke (ArticleGenerator env) [(lit ''instruction'', PStr s)] w = (r, w', evs)"
    by (simp add: generate_article_invoke)
  have valid: "validate_string (PStr s) = Inr ()"
    using assms by (rule validate_string_valid)
  from inv show ?thesis
  proof (cases rule: pipeline_run)
    case (1 t s' b ti si bi g k)
    from prefix_length_le[OF 1(5)] have len: "length (translate_calls evs) \<le> 3"
      by simp
    from 1(2) 1(4) 1(7) len show ?thesis
      by (cases r)
         (auto simp: classify_texts_valid[OF valid] run events_def GraphState_def)
  qed
qed

theorem pipeline_failure_is_generic_error_witness:
  "classify_texts garbled_env (PStr (lit ''cats'')) 0 =
     (Inl (HTTPException 500 (lit ''Internal server error'')), 1,
      [LogInfo (lit ''Request received successfully!''),
       GraphInvoke [(lit ''instruction'', PStr (lit ''cats''))],
       NodeStart (lit ''title_generator'') [(lit ''instruction'', PStr (lit ''cats''))],
       Print (lit ''Receiving instruction......''),
       Print (lit ''Generating title......''),
       LLMInvoke TitlePrompt [(lit ''instruction'', PStr (lit ''cats''))],
       LogError OutputParserException])"
  using pipeline_failure_is_generic_error[of "lit ''cats''" garbled_env 0] cats_hyps garbled_run
  by simp

text \<open>
  Claim C4. In every completed pipeline run the final record has \<open>seo_en\<close> equal
  to \<open>title_en\<close> and \<open>seo_id\<close> equal to \<open>title_id\<close>.
\<close>

theorem seo_fields_equal_titles:
  assumes "result (generate_article (ArticleGenerator env) x w) = Inr a"
  shows "\<exists>t ti. map_of a (lit ''title_en'') = Some t \<and> map_of a (lit ''seo_en'') = Some t
               \<and> map_of a (lit ''title_id'') = Some ti \<and> map_of a (lit ''seo_id'') = Some ti"
proof -
  obtain w' evs where "generate_article (ArticleGenerator env) x w = (Inr a, w', evs)"
    using assms by (cases "generate_article (ArticleGenerator env) x w") (auto simp: result_def)
  then have inv: "invoke (ArticleGenerator env) [(lit ''instruction'', x)] w = (Inr a, w', evs)"
    by (simp add: generate_article_invoke)
  from inv show ?thesis
  proof (cases rule: pipeline_run)
    case (1 t s b ti si bi g k)
    from 1(7)[OF refl] show ?thesis by simp
  qed
qed

theorem seo_fields_equal_titles_witness:
  "map_of (projr (result (generate_article (ArticleGenerator demo_env) (PStr (lit ''cats'')) 0)))
      (lit ''seo_en'') = Some (PStr (lit ''Cats''))
   \<and> map_of (projr (result (generate_article (ArticleGenerator demo_env) (PStr (lit ''cats'')) 0)))
      (lit ''title_en'') = Some (PStr (lit ''Cats''))
   \<and> map_of (projr (result (generate_article (ArticleGenerator demo_env) (PStr (lit ''cats'')) 0)))
      (lit ''seo_id'') = Some (PStr (lit ''id:Cats''))
   \<and> map_of (projr (result (generate_article (ArticleGenerator demo_env) (PStr (lit ''cats'')) 0)))
      (lit ''title_id'') = Some (PStr (lit ''id:Cats''))"
  using seo_fields_equal_titles[OF demo_run_result]
  by (simp add: demo_run_result)

section \<open>Stage order and frame (claims C5, C6)\<close>

lemma stage_inputs_names:
  "map fst (stage_inputs x t s b ti si bi) =
     [lit ''title_generator'', lit ''summary_generator'', lit ''body_generator'',
      lit ''translator'', lit ''tags_generator'']"
  by (simp add: stage_inputs_def)

lemma stage_inputs_keys:
  assumes "(n, st) \<in> set (stage_inputs x t s b ti si bi)"
  shows "(n = lit ''summary_generator'' \<longrightarrow> lit ''title_en'' \<in> keys st)
       \<and> (n = lit ''body_generator'' \<longrightarrow>
            lit ''title_en'' \<in> keys st \<and> lit ''summary_en'' \<in> keys st)
       \<and> (n = lit ''translator'' \<longrightarrow> lit ''body_en'' \<in> keys st)
       \<and> (n = lit ''tags_generator'' \<longrightarrow>
            lit ''title_id'' \<in> keys st \<and> lit ''summary_id'' \<in> keys st)"
  using assms by (auto simp: stage_inputs_def keys_def)

text \<open>
  Claim C5. Whenever the engine starts a node in a pipeline run, the state it is started
  on already holds the fields the node reads: \<open>title_en\<close> for the summary
  stage, \<open>title_en\<close> and \<open>summary_en\<close> for the body stage, \<open>body_en\<close> for
  the translator, \<open>title_id\<close> and \<open>summary_id\<close> for the tags stage. The nodes are
  started in the fixed order, none skipped.
\<close>

theorem stages_start_after_their_inputs:
  assumes "(n, st) \<in> set (node_starts (events (generate_article (ArticleGenerator env) x w)))"
  shows "(n = lit ''summary_generator'' \<longrightarrow> lit ''title_en'' \<in> keys st)
       \<and> (n = lit ''body_generator'' \<longrightarrow>
            lit ''title_en'' \<in> keys st \<and> lit ''summary_en'' \<in> keys st)
       \<and> (n = lit ''translator'' \<longrightarrow> lit ''body_en'' \<in> keys st)
       \<and> (n = lit ''tags_generator'' \<longrightarrow>
            lit ''title_id'' \<in> keys st \<and> lit ''summary_id'' \<in> keys st)
       \<and> prefix (map fst (node_starts (events (generate_article (ArticleGenerator env) x w))))
            [lit ''title_generator'', lit ''summary_generator'', lit ''body_generator'',
             lit ''translator'', lit ''tags_generator'']"
proof -
  obtain r w' evs where run: "generate_article (ArticleGenerator env) x w = (r, w', evs)"
    by (cases "generate_article (ArticleGenerator env) x w") auto
  from run have inv: "invoke (ArticleGenerator env) [(lit ''instruction'', x)] w = (r, w', evs)"
    by (simp add: generate_article_invoke)
  from inv show ?thesis
  proof (cases rule: pipeline_run)
    case (1 t s b ti si bi g k)
    from assms have "(n, st) \<in> set (node_starts evs)"
      by (simp add: run events_def)
    then have mem: "(n, st) \<in> set (stage_inputs x t s b ti si bi)"
      unfolding 1(3) by (rule in_set_takeD)
    have "map fst (node_starts evs) = take (Suc k) (map fst (stage_inputs x t s b ti si bi))"
      unfolding 1(3) by (rule take_map[symmetric])
    then have "prefix (map fst (node_starts evs)) (map fst (stage_inputs x t s b ti si bi))"
      by (simp only: take_is_prefix)
    with stage_inputs_keys[OF mem] show ?thesis
      by (simp add: run events_def stage_inputs_names)
  qed
qed

theorem stages_start_after_their_inputs_witness:
  "(lit ''translator'',
      [(lit ''instruction'', PStr (lit ''cats'')), (lit ''title_en'', PStr (lit ''Cats'')),
       (lit ''seo_en'', PStr (lit ''Cats'')), (lit ''summary_en'', PStr (lit ''About cats'')),
       (lit ''body_en'', PStr (lit ''Cats purr''))])
     \<in> set (node_starts (events
          (generate_article (ArticleGenerator offline_env) (PStr (lit ''cats'')) 0)))
   \<and> lit ''body_en'' \<in> keys
      [(lit ''instruction'', PStr (lit ''cats'')), (lit ''title_en'', PStr (lit ''Cats'')),
       (lit ''seo_en'', PStr (lit ''Cats'')), (lit ''summary_en'', PStr (lit ''About cats'')),
       (lit ''body_en'', PStr (lit ''Cats purr''))]"
  using stages_start_after_their_inputs[of "lit ''translator''"
      "[(lit ''instruction'', PStr (lit ''cats'')), (lit ''title_en'', PStr (lit ''Cats'')),
        (lit ''seo_en'', PStr (lit ''Cats'')), (lit ''summary_en'', PStr (lit ''About cats'')),
        (lit ''body_en'', PStr (lit ''Cats purr''))]" offline_env "PStr (lit ''cats'')" 0]
  by (simp add: offline_run_node_starts)

lemma stage_inputs_chain:
  "sorted_wrt (\<lambda>a b. map_of a \<subseteq>\<^sub>m map_of b)
     (map snd (stage_inputs x t s b ti si bi) @
      [[(lit ''instruction'', x), (lit ''title_en'', t), (lit ''seo_en'', t),
        (lit ''summary_en'', s), (lit ''body_en'', b), (lit ''title_id'', ti),
        (lit ''seo_id'', ti), (lit ''summary_id'', si), (lit ''body_id'', bi),
        (lit ''tags'', g)]])"
  by (simp add: stage_inputs_def map_le_def)

lemma stage_inputs_instruction:
  assumes "st \<in> set (map snd (stage_inputs x t s b ti si bi))"
  shows "map_of st (lit ''instruction'') = Some x"
  using assms by (auto simp: stage_inputs_def)

lemma stage_outputs:
  "(\<forall>u. result (title_generator env st w) = Inr u \<longrightarrow>
          map fst u = [lit ''title_en'', lit ''seo_en''])
   \<and> (\<forall>u. result (summary_generator env st w) = Inr u \<longrightarrow> map fst u = [lit ''summary_en''])
   \<and> (\<forall>u. result (body_generator env st w) = Inr u \<longrightarrow> map fst u = [lit ''body_en''])
   \<and> (\<forall>u. result (translator env st w) = Inr u \<longrightarrow>
          map fst u = [lit ''title_id'', lit ''seo_id'', lit ''summary_id'', lit ''body_id''])
   \<and> (\<forall>u. result (tags_generator env st w) = Inr u \<longrightarrow> map fst u = [lit ''tags''])"
proof -
  have a: "map fst u = [lit ''title_en'', lit ''seo_en'']"
    if "result (title_generator env st w) = Inr u" for u
    using that title_generator_Inr[of env st w u]
    by (cases "title_generator env st w") (auto simp: result_def)
  have b: "map fst u = [lit ''summary_en'']"
    if "result (summary_generator env st w) = Inr u" for u
    using that summary_generator_Inr[of env st w u]
    by (cases "summary_generator env st w") (auto simp: result_def)
  have c: "map fst u = [lit ''body_en'']"
    if "result (body_generator env st w) = Inr u" for u
    using that body_generator_Inr[of env st w u]
    by (cases "body_generator env st w") (auto simp: result_def)
  have d: "map fst u = [lit ''title_id'', lit ''seo_id'', lit ''summary_id'', lit ''body_id'']"
    if "result (translator env st w) = Inr u" for u
    using that translator_Inr[of env st w u]
    by (cases "translator env st w") (auto simp: result_def)
  have e: "map fst u = [lit ''tags'']"
    if "result (tags_generator env st w) = Inr u" for u
    using that tags_generator_Inr[of env st w u]
    by (cases "tags_generator env st w") (auto simp: result_def)
  from a b c d e show ?thesis by simp
qed

text \<open>
  Claim C6. Each stage returns exactly the fields it computes (title stage:
  \<open>title_en\<close>, \<open>seo_en\<close>; summary stage: \<open>summary_en\<close>; body stage:
  \<open>body_en\<close>; translator: \<open>title_id\<close>, \<open>seo_id\<close>, \<open>summary_id\<close>,
  \<open>body_id\<close>; tags stage: \<open>tags\<close>). In a pipeline run the states the nodes are
  started on, followed by the final record when there is one, form a chain in which
  every state agrees with every earlier one on all the fields the earlier one has: no
  field is deleted or changed once set, and \<open>instruction\<close> is the input throughout.
\<close>

theorem state_record_only_grows:
  "(\<forall>u. result (title_generator env st w) = Inr u \<longrightarrow>
          map fst u = [lit ''title_en'', lit ''seo_en''])
   \<and> (\<forall>u. result (summary_generator env st w) = Inr u \<longrightarrow> map fst u = [lit ''summary_en''])
   \<and> (\<forall>u. result (body_generator env st w) = Inr u \<longrightarrow> map fst u = [lit ''body_en''])
   \<and> (\<forall>u. result (translator env st w) = Inr u \<longrightarrow>
          map fst u = [lit ''title_id'', lit ''seo_id'', lit ''summary_id'', lit ''body_id''])
   \<and> (\<forall>u. result (tags_generator env st w) = Inr u \<longrightarrow> map fst u = [lit ''tags''])
   \<and> sorted_wrt (\<lambda>a b. map_of a \<subseteq>\<^sub>m map_of b)
        (map snd (node_starts (events (generate_article (ArticleGenerator env) x w0)))
         @ (case result (generate_article (ArticleGenerator env) x w0) of
              Inl e \<Rightarrow> [] | Inr a \<Rightarrow> [a]))
   \<and> (\<forall>a \<in> set (map snd (node_starts (events (generate_article (ArticleGenerator env) x w0)))
               @ (case result (generate_article (ArticleGenerator env) x w0) of
                    Inl e \<Rightarrow> [] | Inr a \<Rightarrow> [a])).
         map_of a (lit ''instruction'') = Some x)"
proof -
  obtain r w' evs where run: "generate_article (ArticleGenerator env) x w0 = (r, w', evs)"
    by (cases "generate_article (ArticleGenerator env) x w0") auto
  from run have inv: "invoke (ArticleGenerator env) [(lit ''instruction'', x)] w0 = (r, w', evs)"
    by (simp add: generate_article_invoke)
  let ?P = "\<lambda>a b. map_of a \<subseteq>\<^sub>m map_of b"
  have "sorted_wrt ?P (map snd (node_starts evs) @ (case r of Inl e \<Rightarrow> [] | Inr a \<Rightarrow> [a]))
      \<and> (\<forall>a \<in> set (map snd (node_starts evs) @ (case r of Inl e \<Rightarrow> [] | Inr a \<Rightarrow> [a])).
            map_of a (lit ''instruction'') = Some x)"
    using inv
  proof (cases rule: pipeline_run)
    case (1 t s b ti si bi g k)
    let ?L = "map snd (stage_inputs x t s b ti si bi)"
    let ?final = "[(lit ''instruction'', x), (lit ''title_en'', t), (lit ''seo_en'', t),
        (lit ''summary_en'', s), (lit ''body_en'', b), (lit ''title_id'', ti),
        (lit ''seo_id'', ti), (lit ''summary_id'', si), (lit ''body_id'', bi),
        (lit ''tags'', g)]"
    have ns: "map snd (node_starts evs) = take (Suc k) ?L"
      unfolding 1(3) by (rule take_map[symmetric])
    have chain: "sorted_wrt ?P (?L @ [?final])"
      by (rule stage_inputs_chain)
    have instr: "\<forall>a \<in> set ?L. map_of a (lit ''instruction'') = Some x"
      using stage_inputs_instruction by blast
    show ?thesis
    proof (cases r)
      case (Inl e)
      from chain have "sorted_wrt ?P ?L"
        by (simp only: sorted_wrt_append)
      then have "sorted_wrt ?P (take (Suc k) ?L)"
        by (rule sorted_wrt_take)
      moreover have "\<forall>a \<in> set (take (Suc k) ?L). map_of a (lit ''instruction'') = Some x"
        using instr by (meson in_set_takeD)
      ultimately show ?thesis
        by (simp add: ns Inl)
    next
      case (Inr a)
      from 1(7)[OF Inr] have k: "k = 4" and a: "a = ?final"
        by simp_all
      have len: "length ?L = 5"
        by (simp add: stage_inputs_def)
      have full: "take (Suc k) ?L = ?L"
        using len k by simp
      from chain instr show ?thesis
        by (simp add: ns Inr full a del: sorted_wrt_append)
    qed
  qed
  with stage_outputs[of env st w] show ?thesis
    by (simp add: run events_def result_def)
qed

lemma demo_title_result:
  "result (title_generator demo_env [(lit ''instruction'', PStr (lit ''cats''))] 0) =
     Inr [(lit ''title_en'', PStr (lit ''Cats'')), (lit ''seo_en'', PStr (lit ''Cats''))]"
  by (simp add: stage_defs monad_defs dict_getitem_def demo_env_def result_def)

theorem state_record_only_grows_witness:
  "map fst (projr (result (title_generator demo_env [(lit ''instruction'', PStr (lit ''cats''))] 0)))
     = [lit ''title_en'', lit ''seo_en'']
   \<and> sorted_wrt (\<lambda>a b. map_of a \<subseteq>\<^sub>m map_of b)
        (map snd (node_starts (events
           (generate_article (ArticleGenerator offline_env) (PStr (lit ''cats'')) 0))))"
  using state_record_only_grows[of demo_env "[(lit ''instruction'', PStr (lit ''cats''))]" 0
      "PStr (lit ''cats'')" 0]
    state_record_only_grows[of offline_env "[]" 0 "PStr (lit ''cats'')" 0]
  by (simp add: demo_title_result offline_run_result del: sorted_wrt_append)

section \<open>The translator (claim C7)\<close>

lemma tags_start_is_last:
  assumes "(lit ''tags_generator'', st) \<in> set (take (Suc k) (stage_inputs x t s b ti si bi))"
    and "k \<le> 4"
  shows "k = 4 \<and> st = [(lit ''instruction'', x), (lit ''title_en'', t), (lit ''seo_en'', t),
          (lit ''summary_en'', s), (lit ''body_en'', b), (lit ''title_id'', ti),
          (lit ''seo_id'', ti), (lit ''summary_id'', si), (lit ''body_id'', bi)]"
proof -
  from assms(2) consider "k = 0" | "k = 1" | "k = 2" | "k = 3" | "k = 4"
    by linarith
  then show ?thesis
    using assms(1) by cases (auto simp: stage_inputs_def)
qed

text \<open>
  Claim C7, amended. In every pipeline run the translation service is called at most
  three times, every call with source locale "en" and target locale "id". Whenever the
  translator stage completes (the engine goes on to start the tags stage) the run has
  made exactly three translation calls, of \<open>title_en\<close>, \<open>summary_en\<close> and
  \<open>body_en\<close> in this order, and \<open>seo_id\<close> equals \<open>title_id\<close>: it is a copy,
  not a fourth call. The same holds of the translator stage on its own, on any state.
\<close>

theorem translator_makes_three_calls_when_it_completes:
  assumes "generate_article (ArticleGenerator env) x w = (r, w', evs)"
  shows "length (translate_calls evs) \<le> 3
       \<and> (\<forall>c \<in> set (translate_calls evs). fst c = lit ''en'' \<and> fst (snd c) = lit ''id'')
       \<and> (\<forall>st. (lit ''tags_generator'', st) \<in> set (node_starts evs) \<longrightarrow>
            (\<exists>t s b ti.
               map_of st (lit ''title_en'') = Some t \<and> map_of st (lit ''summary_en'') = Some s
             \<and> map_of st (lit ''body_en'') = Some b
             \<and> translate_calls evs =
                 [(lit ''en'', lit ''id'', t), (lit ''en'', lit ''id'', s),
                  (lit ''en'', lit ''id'', b)]
             \<and> map_of st (lit ''title_id'') = Some ti \<and> map_of st (lit ''seo_id'') = Some ti))
       \<and> (\<forall>st0 w0 u w1 evs1. translator env st0 w0 = (Inr u, w1, evs1) \<longrightarrow>
            (\<exists>t s b ti si bi.
               map_of st0 (lit ''title_en'') = Some t \<and> map_of st0 (lit ''summary_en'') = Some s
             \<and> map_of st0 (lit ''body_en'') = Some b
             \<and> translate_calls evs1 =
                 [(lit ''en'', lit ''id'', t), (lit ''en'', lit ''id'', s),
                  (lit ''en'', lit ''id'', b)]
             \<and> u = [(lit ''title_id'', ti), (lit ''seo_id'', ti), (lit ''summary_id'', si),
                     (lit ''body_id'', bi)]))"
proof -
  from assms have inv: "invoke (ArticleGenerator env) [(lit ''instruction'', x)] w = (r, w', evs)"
    by (simp add: generate_article_invoke)
  have stage: "\<forall>st0 w0 u w1 evs1. translator env st0 w0 = (Inr u, w1, evs1) \<longrightarrow>
            (\<exists>t s b ti si bi.
               map_of st0 (lit ''title_en'') = Some t \<and> map_of st0 (lit ''summary_en'') = Some s
             \<and> map_of st0 (lit ''body_en'') = Some b
             \<and> translate_calls evs1 =
                 [(lit ''en'', lit ''id'', t), (lit ''en'', lit ''id'', s),
                  (lit ''en'', lit ''id'', b)]
             \<and> u = [(lit ''title_id'', ti), (lit ''seo_id'', ti), (lit ''summary_id'', si),
                     (lit ''body_id'', bi)])"
    using translator_Inr by fast
  from inv show ?thesis
  proof (cases rule: pipeline_run)
    case (1 t s b ti si bi g k)
    let ?plan = "[(lit ''en'', lit ''id'', t), (lit ''en'', lit ''id'', s),
                  (lit ''en'', lit ''id'', b)]"
    from prefix_length_le[OF 1(5)] have len: "length (translate_calls evs) \<le> 3"
      by simp
    from set_mono_prefix[OF 1(5)] have "set (translate_calls evs) \<subseteq> set ?plan" .
    then have locales:
      "\<forall>c \<in> set (translate_calls evs). fst c = lit ''en'' \<and> fst (snd c) = lit ''id''"
      by auto
    have finished: "\<exists>t s b ti.
               map_of st (lit ''title_en'') = Some t \<and> map_of st (lit ''summary_en'') = Some s
             \<and> map_of st (lit ''body_en'') = Some b
             \<and> translate_calls evs =
                 [(lit ''en'', lit ''id'', t), (lit ''en'', lit ''id'', s),
                  (lit ''en'', lit ''id'', b)]
             \<and> map_of st (lit ''title_id'') = Some ti \<and> map_of st (lit ''seo_id'') = Some ti"
      if "(lit ''tags_generator'', st) \<in> set (node_starts evs)" for st
    proof -
      from that have "(lit ''tags_generator'', st)
          \<in> set (take (Suc k) (stage_inputs x t s b ti si bi))"
        by (simp only: 1(3))
      from tags_start_is_last[OF this 1(1)] 1(6) show ?thesis
        by simp
    qed
    from len locales finished stage show ?thesis
      by simp
  qed
qed

theorem translator_makes_three_calls_when_it_completes_witness:
  "translate_calls (events (generate_article (ArticleGenerator demo_env) (PStr (lit ''cats'')) 0))
     = [(lit ''en'', lit ''id'', PStr (lit ''Cats'')),
        (lit ''en'', lit ''id'', PStr (lit ''About cats'')),
        (lit ''en'', lit ''id'', PStr (lit ''Cats purr''))]
   \<and> length (translate_calls
        (events (generate_article (ArticleGenerator demo_env) (PStr (lit ''cats'')) 0))) \<le> 3"
  using translator_makes_three_calls_when_it_completes[of demo_env "PStr (lit ''cats'')" 0
      "result (generate_article (ArticleGenerator demo_env) (PStr (lit ''cats'')) 0)"
      "world (generate_article (ArticleGenerator demo_env) (PStr (lit ''cats'')) 0)"
      "events (generate_article (ArticleGenerator demo_env) (PStr (lit ''cats'')) 0)"]
    demo_run_translate_calls
  by (simp add: result_def world_def events_def)

text \<open>
  The claim as stated ("in every pipeline run ... exactly three translation calls") fails
  when the translation service raises: the translator stage is started, makes one call
  and the exception ends the run.
\<close>

theorem translator_three_calls_counterexample:
  "(lit ''translator'')
     \<in> set (map fst (node_starts (events
          (generate_article (ArticleGenerator offline_env) (PStr (lit ''cats'')) 0))))
   \<and> translate_calls (events
        (generate_article (ArticleGenerator offline_env) (PStr (lit ''cats'')) 0))
     = [(lit ''en'', lit ''id'', PStr (lit ''Cats''))]
   \<and> length (translate_calls (events
        (generate_article (ArticleGenerator offline_env) (PStr (lit ''cats'')) 0))) \<noteq> 3"
  by (simp add: offline_run_node_starts offline_run_translate_calls)

section \<open>Graph and sequence (claim C8)\<close>

text \<open>
  Claim C8. Running the compiled five-node workflow gives the same result, the same
  final world and, the engine's own events apart, the same events in the same order as
  running the five stage functions one after the other in the order title, summary,
  body, translator, tags, merging each stage's returned fields into the running state.
\<close>

theorem graph_run_equals_sequential_run:
  "hide_engine (generate_article (ArticleGenerator env) x w) = sequential_pipeline env x w"
proof -
  obtain r w' evs where run: "generate_article (ArticleGenerator env) x w = (r, w', evs)"
    by (cases "generate_article (ArticleGenerator env) x w") auto
  from run have inv: "invoke (ArticleGenerator env) [(lit ''instruction'', x)] w = (r, w', evs)"
    by (simp add: generate_article_invoke)
  have seq: "sequential_pipeline env x =
     bindE (title_generator env [(lit ''instruction'', x)]) (\<lambda>u1.
     bindE (summary_generator env (dict_update [(lit ''instruction'', x)] u1)) (\<lambda>u2.
     bindE (body_generator env (dict_update (dict_update [(lit ''instruction'', x)] u1) u2)) (\<lambda>u3.
     bindE (translator env
              (dict_update (dict_update (dict_update [(lit ''instruction'', x)] u1) u2) u3)) (\<lambda>u4.
     bindE (tags_generator env
              (dict_update (dict_update (dict_update (dict_update
                 [(lit ''instruction'', x)] u1) u2) u3) u4)) (\<lambda>u5.
     returnE (dict_update (dict_update (dict_update (dict_update (dict_update
                 [(lit ''instruction'', x)] u1) u2) u3) u4) u5))))))"
    by (simp add: sequential_pipeline_def)
  from inv show ?thesis
  proof (cases rule: invoke_cases)
    case (title_fails e e1)
    from title_generator_events[OF title_fails(1)] title_fails show ?thesis
      by (simp add: run hide_engine_def result_def world_def events_def seq bindE_def)
  next
    case (summary_fails u1 w1 e1 e e2)
    from title_generator_events[OF summary_fails(1)]
      summary_generator_events[OF summary_fails(2)] summary_fails
    show ?thesis
      by (simp add: run hide_engine_def result_def world_def events_def seq bindE_def)
  next
    case (body_fails u1 w1 e1 u2 w2 e2 e e3)
    from title_generator_events[OF body_fails(1)] summary_generator_events[OF body_fails(2)]
      body_generator_events[OF body_fails(3)] body_fails
    show ?thesis
      by (simp add: run hide_engine_def result_def world_def events_def seq bindE_def)
  next
    case (translator_fails u1 w1 e1 u2 w2 e2 u3 w3 e3 e e4)
    from title_generator_events[OF translator_fails(1)]
      summary_generator_events[OF translator_fails(2)]
      body_generator_events[OF translator_fails(3)] translator_events[OF translator_fails(4)]
      translator_fails
    show ?thesis
      by (simp add: run hide_engine_def result_def world_def events_def seq bindE_def)
  next
    case (tags_fails u1 w1 e1 u2 w2 e2 u3 w3 e3 u4 w4 e4 e e5)
    from title_generator_events[OF tags_fails(1)] summary_generator_events[OF tags_fails(2)]
      body_generator_events[OF tags_fails(3)] translator_events[OF tags_fails(4)]
      tags_generator_events[OF tags_fails(5)] tags_fails
    show ?thesis
      by (simp add: run hide_engine_def result_def world_def events_def seq bindE_def)
  next
    case (completes u1 w1 e1 u2 w2 e2 u3 w3 e3 u4 w4 e4 u5 e5)
    from title_generator_events[OF completes(1)] summary_generator_events[OF completes(2)]
      body_generator_events[OF completes(3)] translator_events[OF completes(4)]
      tags_generator_events[OF completes(5)] completes
    show ?thesis
      by (simp add: run hide_engine_def result_def world_def events_def seq bindE_def returnE_def)
  qed
qed

section \<open>Tags (claim C10)\<close>

text \<open>
  Claim C10. When the parsed LLM response of the tags stage is a dictionary with the key
  \<open>tags\<close>, the stage returns the value under that key as it is, whatever value it
  is, and merging it makes it the \<open>tags\<close> field of the state. In every completed
  pipeline run the final \<open>tags\<close> field is the value under \<open>tags\<close> in the parsed
  answer to the tags prompt.
\<close>

theorem tags_value_passes_through:
  assumes "map_of st (lit ''title_id'') = Some ti"
    and "map_of st (lit ''summary_id'') = Some si"
    and "llm_invoke env w TagsPrompt [(lit ''title_id'', ti), (lit ''summary_id'', si)]
           = (Inr answer, w')"
    and "json_parse env answer = Inr (PDict d)"
    and "map_of d (lit ''tags'') = Some v"
  shows "result (tags_generator env st w) = Inr [(lit ''tags'', v)]
       \<and> map_of (dict_update st [(lit ''tags'', v)]) (lit ''tags'') = Some v
       \<and> (\<forall>a. result (generate_article (ArticleGenerator env) x w0) = Inr a \<longrightarrow>
            (\<exists>w4 ti' si' answer' d' g.
               map_of a (lit ''title_id'') = Some ti' \<and> map_of a (lit ''summary_id'') = Some si'
             \<and> llm_invoke env w4 TagsPrompt
                   [(lit ''title_id'', ti'), (lit ''summary_id'', si')]
                 = (Inr answer', world (generate_article (ArticleGenerator env) x w0))
             \<and> json_parse env answer' = Inr (PDict d') \<and> map_of d' (lit ''tags'') = Some g
             \<and> map_of a (lit ''tags'') = Some g))"
proof -
  have stage: "result (tags_generator env st w) = Inr [(lit ''tags'', v)]"
    using assms
    by (simp add: tags_generator_def chain_invoke_def llm_call_def monad_defs dict_getitem_def
        result_def)
  have merged: "map_of (dict_update st [(lit ''tags'', v)]) (lit ''tags'') = Some v"
    by (simp add: dict_update_def update_conv')
  have run: "\<exists>w4 ti' si' answer' d' g.
               map_of a (lit ''title_id'') = Some ti' \<and> map_of a (lit ''summary_id'') = Some si'
             \<and> llm_invoke env w4 TagsPrompt
                   [(lit ''title_id'', ti'), (lit ''summary_id'', si')]
                 = (Inr answer', world (generate_article (ArticleGenerator env) x w0))
             \<and> json_parse env answer' = Inr (PDict d') \<and> map_of d' (lit ''tags'') = Some g
             \<and> map_of a (lit ''tags'') = Some g"
    if res: "result (generate_article (ArticleGenerator env) x w0) = Inr a" for a
  proof -
    obtain w1 evs where g: "generate_article (ArticleGenerator env) x w0 = (Inr a, w1, evs)"
      using res by (cases "generate_article (ArticleGenerator env) x w0") (auto simp: result_def)
    then have inv: "invoke (ArticleGenerator env) [(lit ''instruction'', x)] w0 = (Inr a, w1, evs)"
      by (simp add: generate_article_invoke)
    from inv show ?thesis
    proof (cases rule: pipeline_run)
      case (1 t s b ti si bi g' k)
      from 1(7)[OF refl] show ?thesis
        by (auto simp: g world_def)
    qed
  qed
  from stage merged run show ?thesis by simp
qed

theorem tags_value_passes_through_witness:
  "result (tags_generator odd_tags_env
      [(lit ''title_id'', PStr (lit ''id:Cats'')),
       (lit ''summary_id'', PStr (lit ''id:About cats''))] 6)
     = Inr [(lit ''tags'', PInt 7)]
   \<and> map_of (projr (result
        (generate_article (ArticleGenerator odd_tags_env) (PStr (lit ''cats'')) 0)))
        (lit ''tags'') = Some (PInt 7)"
  using tags_value_passes_through[of
      "[(lit ''title_id'', PStr (lit ''id:Cats'')),
        (lit ''summary_id'', PStr (lit ''id:About cats''))]"
      "PStr (lit ''id:Cats'')" "PStr (lit ''id:About cats'')" odd_tags_env 6 "lit ''G''" 7
      "[(lit ''tags'', PInt 7)]" "PInt 7" "PStr (lit ''cats'')" 0]
    odd_tags_run_result
  by (simp add: odd_tags_env_def demo_env_def)

end
